theory Spec2Isabelle
  imports Complex_Main
begin

section \<open>Values of the platform\<close>

text \<open>
  A value produced by \<^verbatim>\<open>JSON.parse\<close> or \<^verbatim>\<open>response.json()\<close>. Numbers are kept as exact
  rationals; an object is the list of its members in the order they were read.
  JavaScript's \<^verbatim>\<open>undefined\<close> is \<open>None\<close> of \<open>json option\<close>.
\<close>

datatype json =
    JNull
  | JBool bool
  | JNumber rat
  | JString string
  | JArray "json list"
  | JObject "(string \<times> json) list"

text \<open>
  The \<^verbatim>\<open>Response\<close> object that \<^verbatim>\<open>fetch\<close> resolves with. \<open>json_body\<close> is what
  \<^verbatim>\<open>response.json()\<close> resolves to, \<open>None\<close> when it rejects (the body is not JSON).
\<close>

record response =
  status :: int
  statusText :: string
  json_body :: "json option"

text \<open>\<^verbatim>\<open>response.ok\<close>, which the Fetch standard defines as a status in the range 200 to 299.\<close>

definition ok :: "response \<Rightarrow> bool" where
  "ok r \<longleftrightarrow> 200 \<le> status r \<and> status r \<le> 299"

text \<open>
  One invocation of \<^verbatim>\<open>fetchFn()\<close> either resolves with a response or rejects with an
  error (a transport failure), of which only the message is read.
\<close>

datatype outcome = Resolves response | Rejects string

text \<open>The errors thrown in the program, each with the text the source gives it.\<close>

datatype error =
    Client_error int string
      \<comment> \<open>\<^verbatim>\<open>new Error(`Client error: ${response.status} ${response.statusText}`)\<close>\<close>
  | Fetch_rejected string
      \<comment> \<open>the rejection of \<^verbatim>\<open>fetchFn()\<close>, with its message\<close>
  | Max_retries
      \<comment> \<open>\<^verbatim>\<open>new Error("Failed to fetch from AI service after maximum retries.")\<close>\<close>
  | Json_not_found
      \<comment> \<open>\<^verbatim>\<open>new Error("Valid JSON object not found in AI response.")\<close>\<close>
  | Syntax_error
      \<comment> \<open>the \<^verbatim>\<open>SyntaxError\<close> of \<^verbatim>\<open>JSON.parse\<close> and of \<^verbatim>\<open>response.json()\<close>\<close>
  | Type_error
      \<comment> \<open>the \<^verbatim>\<open>TypeError\<close> of reading a property of \<^verbatim>\<open>null\<close> or calling what is no function\<close>
  | Generate_failed string
      \<comment> \<open>the rejection of \<^verbatim>\<open>ai.models.generateContent\<close>, with its message\<close>

text \<open>
  Everything the program does to the outside world, in the order it happens: the trace of
  a run is an \<open>event list\<close>, oldest event first.
\<close>

datatype event =
    Fetch
      \<comment> \<open>\<^verbatim>\<open>fetchFn()\<close> is invoked\<close>
  | Sleep real
      \<comment> \<open>\<^verbatim>\<open>setTimeout(resolve, delay)\<close> is awaited\<close>
  | Warn_rate_limited
      \<comment> \<open>\<^verbatim>\<open>console.warn("Rate limited. Retrying with backoff...")\<close>\<close>
  | Warn_server_error int
      \<comment> \<open>\<^verbatim>\<open>console.warn(`Server error: ${response.status}. Retrying with backoff...`)\<close>\<close>
  | Warn_attempt_failed nat error
      \<comment> \<open>\<^verbatim>\<open>console.warn(`Fetch attempt ${attempt + 1} failed with error: ...`)\<close>\<close>
  | Log_fetching string
      \<comment> \<open>\<^verbatim>\<open>console.log(`Fetching price for: ${name}...`)\<close>\<close>
  | Log_raw_text json
      \<comment> \<open>\<^verbatim>\<open>console.log("AI Response (Raw JSON Text):", jsonText)\<close>\<close>
  | Json_parse string
      \<comment> \<open>\<^verbatim>\<open>JSON.parse\<close> is invoked on this string\<close>
  | Error_key_missing
      \<comment> \<open>\<^verbatim>\<open>console.error("GEMINI_API_KEY is not set ...")\<close>\<close>
  | Error_parse_failed error
      \<comment> \<open>\<^verbatim>\<open>console.error("Failed to parse JSON response from AI:", parseError.message)\<close>\<close>
  | Error_raw_text json
      \<comment> \<open>\<^verbatim>\<open>console.error("Raw text was:", jsonText)\<close>\<close>
  | Error_invalid_structure json
      \<comment> \<open>\<^verbatim>\<open>console.error("Invalid AI response structure:", ...)\<close>\<close>
  | Error_gemini error
      \<comment> \<open>\<^verbatim>\<open>console.error("Gemini API Error:", error.message)\<close>\<close>
  | Generate string
      \<comment> \<open>\<^verbatim>\<open>ai.models.generateContent\<close> is invoked for this commodity name\<close>
  | Log_ai_response "string option"
      \<comment> \<open>\<^verbatim>\<open>console.log("AI Response:", response.text)\<close>\<close>

text \<open>The number of request invocations and of sleeps in a trace, and the delays slept.\<close>

definition n_fetch :: "event list \<Rightarrow> nat" where
  "n_fetch tr = length (filter (\<lambda>e. e = Fetch) tr)"

fun sleeps :: "event list \<Rightarrow> real list" where
  "sleeps [] = []"
| "sleeps (Sleep d # tr) = d # sleeps tr"
| "sleeps (e # tr) = sleeps tr"

definition n_sleep :: "event list \<Rightarrow> nat" where
  "n_sleep tr = length (sleeps tr)"



section \<open>Numbers of the platform\<close>

text \<open>
  A JavaScript number is a double. The model writes a number as the real it denotes and
  takes the three operations of line 57, the product, the sum and \<^verbatim>\<open>Math.pow\<close>, as the
  platform gives them: whatever they round to, the program is modelled with them and not
  with the exact operations of the reals.
\<close>

record arith =
  fl_mul :: "real \<Rightarrow> real \<Rightarrow> real"
  fl_add :: "real \<Rightarrow> real \<Rightarrow> real"
  fl_pow :: "real \<Rightarrow> nat \<Rightarrow> real"

text \<open>
  \<^verbatim>\<open>const delay = baseDelay * Math.pow(2, attempt) + (Math.random() * 1000)\<close>, where
  \<open>rnd\<close> is the value that \<^verbatim>\<open>Math.random()\<close> returned.
\<close>

definition delay :: "arith \<Rightarrow> real \<Rightarrow> nat \<Rightarrow> real \<Rightarrow> real" where
  "delay ops baseDelay attempt rnd =
     fl_add ops (fl_mul ops baseDelay (fl_pow ops 2 attempt)) (fl_mul ops rnd 1000)"

text \<open>
  The exact operations. Doubles compute like them as long as every value involved is an
  integer below \<open>2 ^ 53\<close> or a small dyadic fraction; the concrete runs below use them
  on such values only.
\<close>

definition exact :: arith where
  "exact = \<lparr>fl_mul = (\<lambda>x y. x * y), fl_add = (\<lambda>x y. x + y), fl_pow = (\<lambda>x n. x ^ n)\<rparr>"



section \<open>fetchWithBackoff\<close>

text \<open>
  The body of the \<^verbatim>\<open>try\<close> block after \<^verbatim>\<open>fetchFn()\<close> has settled. It completes in one
  of three ways: it returns the response, it throws, or it falls through to the code
  after the \<^verbatim>\<open>try\<close> statement.
\<close>

datatype completion = Return response | Throw error | Normal

fun try_block :: "outcome \<Rightarrow> event list \<Rightarrow> completion \<times> event list" where
  "try_block (Rejects msg) tr = (Throw (Fetch_rejected msg), tr)"
| "try_block (Resolves r) tr =
     (if ok r then (Return r, tr)
      else if status r \<ge> 400 \<and> status r < 500 then
        (Throw (Client_error (status r) (statusText r)), tr)
      else if status r = 429 then (Normal, tr @ [Warn_rate_limited])
      else (Normal, tr @ [Warn_server_error (status r)]))"

text \<open>
  The whole \<^verbatim>\<open>try { ... } catch (error) { ... }\<close> statement of one iteration: the
  \<^verbatim>\<open>catch\<close> clause takes every error thrown in the block, the client error included,
  logs it and completes normally. \<open>Some r\<close> is the \<^verbatim>\<open>return response\<close>; \<open>None\<close> goes on
  to the code after the statement.
\<close>

definition try_catch :: "outcome \<Rightarrow> nat \<Rightarrow> event list \<Rightarrow> response option \<times> event list" where
  "try_catch out attempt tr =
     (case try_block out tr of
        (Return r, tr') \<Rightarrow> (Some r, tr')
      | (Throw e, tr') \<Rightarrow> (None, tr' @ [Warn_attempt_failed (attempt + 1) e])
      | (Normal, tr') \<Rightarrow> (None, tr'))"

text \<open>
  The \<^verbatim>\<open>while (attempt < maxRetries)\<close> loop, entered with the current \<open>attempt\<close> and
  trace. \<open>fetchFn k\<close> is how the \<open>k\<close>-th invocation of the request function settles and
  \<open>random k\<close> is the \<open>k\<close>-th value of \<^verbatim>\<open>Math.random()\<close>; the loop reads the next one of
  each, counted on the trace. \<open>maxRetries\<close> is an integer; \<open>baseDelay\<close> and the delays are
  numbers, computed with the operations \<open>ops\<close> of the platform.
\<close>

function fetchWithBackoff_loop ::
  "arith \<Rightarrow> (nat \<Rightarrow> outcome) \<Rightarrow> (nat \<Rightarrow> real) \<Rightarrow> int \<Rightarrow> real \<Rightarrow> nat \<Rightarrow> event list
     \<Rightarrow> (error + response) \<times> event list" where
  "fetchWithBackoff_loop ops fetchFn random maxRetries baseDelay attempt tr =
     (if int attempt < maxRetries then
        (case try_catch (fetchFn (n_fetch tr)) attempt (tr @ [Fetch]) of
           (Some r, tr') \<Rightarrow> (Inr r, tr')
         | (None, tr') \<Rightarrow>
             if int attempt = maxRetries - 1 then (Inl Max_retries, tr')
             else
               fetchWithBackoff_loop ops fetchFn random maxRetries baseDelay (attempt + 1)
                 (tr' @ [Sleep (delay ops baseDelay attempt (random (n_sleep tr')))]))
      else (Inl Max_retries, tr))"
  by pat_completeness auto
termination
  by (relation "measure (\<lambda>(ops, fetchFn, random, maxRetries, baseDelay, attempt, tr).
        nat (maxRetries - int attempt))") auto

definition fetchWithBackoff ::
  "arith \<Rightarrow> (nat \<Rightarrow> outcome) \<Rightarrow> (nat \<Rightarrow> real) \<Rightarrow> int \<Rightarrow> real \<Rightarrow> event list
     \<Rightarrow> (error + response) \<times> event list" where
  "fetchWithBackoff ops fetchFn random maxRetries baseDelay tr =
     fetchWithBackoff_loop ops fetchFn random maxRetries baseDelay 0 tr"



section \<open>String operations of the platform\<close>

text \<open>
  \<^verbatim>\<open>indexOf\<close> and \<^verbatim>\<open>lastIndexOf\<close> with a one-element search value: the first and the last
  position of \<open>x\<close>, and \<open>-1\<close> when there is none. They serve for strings (lists of
  characters) and for arrays (where \<^verbatim>\<open>indexOf\<close> compares with \<^verbatim>\<open>===\<close>). The two braces
  are one unit each in UTF-16 as in a byte string, so the text cut between them is the
  same in both.
\<close>

definition indexOf :: "'a list \<Rightarrow> 'a \<Rightarrow> int" where
  "indexOf xs x = (if x \<in> set xs then int (length (takeWhile (\<lambda>y. y \<noteq> x) xs)) else - 1)"

definition lastIndexOf :: "'a list \<Rightarrow> 'a \<Rightarrow> int" where
  "lastIndexOf xs x =
     (if x \<in> set xs then int (length xs) - 1 - int (length (takeWhile (\<lambda>y. y \<noteq> x) (rev xs)))
      else - 1)"

text \<open>
  \<^verbatim>\<open>String.prototype.substring\<close>: both indices are clamped to the string and swapped
  when the first is the larger.
\<close>

definition substring :: "string \<Rightarrow> int \<Rightarrow> int \<Rightarrow> string" where
  "substring s indexStart indexEnd =
     (let len = int (length s);
          a = max 0 (min indexStart len);
          b = max 0 (min indexEnd len);
          lo = min a b;
          hi = max a b
      in take (nat (hi - lo)) (drop (nat lo) s))"

section \<open>The response extractor\<close>

text \<open>What the handler sends: the HTTP status and the body.\<close>

datatype body =
    Error_body string "error option"
      \<comment> \<open>\<^verbatim>\<open>{ error: ..., details: error.message }\<close>, the details where the source gives them\<close>
  | Json_body json
      \<comment> \<open>\<^verbatim>\<open>res.status(200).json(parsedJson)\<close>\<close>
  | Explanation_body "string option"
      \<comment> \<open>\<^verbatim>\<open>{ explanation: response.text }\<close>\<close>

type_synonym reply = "nat \<times> body"

text \<open>
  The body of the inner \<^verbatim>\<open>try\<close> block when \<open>jsonText\<close> is a string: find the first
  opening and the last closing brace, cut the text between them and parse it. \<open>parse\<close>
  is the platform's \<^verbatim>\<open>JSON.parse\<close>, \<open>None\<close> when it throws; it is a parameter, so that
  what is proved of the extractor holds whatever the parser does.
\<close>

definition response_extractor ::
  "(string \<Rightarrow> json option) \<Rightarrow> string \<Rightarrow> event list \<Rightarrow> (error + json) \<times> event list" where
  "response_extractor parse jsonText tr =
     (let startIndex = indexOf jsonText (CHR ''{'');
          endIndex = lastIndexOf jsonText (CHR ''}'')
      in if startIndex = - 1 \<or> endIndex = - 1 \<or> endIndex < startIndex then
           (Inl Json_not_found, tr)
         else
           (let cleanedJsonText = substring jsonText startIndex (endIndex + 1)
            in case parse cleanedJsonText of
                 None \<Rightarrow> (Inl Syntax_error, tr @ [Json_parse cleanedJsonText])
               | Some parsedJson \<Rightarrow> (Inr parsedJson, tr @ [Json_parse cleanedJsonText])))"

text \<open>
  The same block for any truthy value of \<open>jsonText\<close>. An array has \<^verbatim>\<open>indexOf\<close> and
  \<^verbatim>\<open>lastIndexOf\<close> but no \<^verbatim>\<open>substring\<close>; a number, \<^verbatim>\<open>true\<close> or an object has none of
  them, and calling what is missing throws a \<^verbatim>\<open>TypeError\<close>.
\<close>

definition inner_try ::
  "(string \<Rightarrow> json option) \<Rightarrow> json \<Rightarrow> event list \<Rightarrow> (error + json) \<times> event list" where
  "inner_try parse jsonText tr =
     (case jsonText of
        JString s \<Rightarrow> response_extractor parse s tr
      | JArray xs \<Rightarrow>
          (let startIndex = indexOf xs (JString ''{'');
               endIndex = lastIndexOf xs (JString ''}'')
           in if startIndex = - 1 \<or> endIndex = - 1 \<or> endIndex < startIndex then
                (Inl Json_not_found, tr)
              else (Inl Type_error, tr))
      | _ \<Rightarrow> (Inl Type_error, tr))"

text \<open>
  The inner \<^verbatim>\<open>try { ... } catch (parseError) { ... }\<close>: the parsed value is sent as it
  is with status 200; any error of the block is logged with the raw text and answered
  with status 500.
\<close>

definition parse_and_respond ::
  "(string \<Rightarrow> json option) \<Rightarrow> json \<Rightarrow> event list \<Rightarrow> reply \<times> event list" where
  "parse_and_respond parse jsonText tr =
     (case inner_try parse jsonText tr of
        (Inr parsedJson, tr') \<Rightarrow> ((200, Json_body parsedJson), tr')
      | (Inl parseError, tr') \<Rightarrow>
          ((500, Error_body ''Failed to parse AI response.'' None),
           tr' @ [Error_parse_failed parseError, Error_raw_text jsonText]))"

section \<open>The envelope of the upstream response\<close>

text \<open>The truthiness of a value in a condition; \<open>None\<close> is \<^verbatim>\<open>undefined\<close>.\<close>

fun truthy :: "json option \<Rightarrow> bool" where
  "truthy None = False"
| "truthy (Some JNull) = False"
| "truthy (Some (JBool b)) = b"
| "truthy (Some (JNumber x)) = (x \<noteq> 0)"
| "truthy (Some (JString s)) = (s \<noteq> [])"
| "truthy (Some (JArray xs)) = True"
| "truthy (Some (JObject kvs)) = True"

text \<open>
  Reading the property \<open>k\<close> of a value that is neither \<^verbatim>\<open>null\<close> nor \<^verbatim>\<open>undefined\<close>. Of
  an object it is the member of that name (the last one when the name was repeated); the
  names read in this program (\<^verbatim>\<open>candidates\<close>, \<^verbatim>\<open>content\<close>, \<^verbatim>\<open>parts\<close>, \<^verbatim>\<open>text\<close>) are
  no properties of a string, an array, a number or a boolean.
\<close>

fun property :: "string \<Rightarrow> json \<Rightarrow> json option" where
  "property k (JObject kvs) = map_of (rev kvs) k"
| "property k v = None"

text \<open>The element access \<^verbatim>\<open>v[0]\<close> on such a value.\<close>

fun elem0 :: "json \<Rightarrow> json option" where
  "elem0 (JArray xs) = (case xs of [] \<Rightarrow> None | x # _ \<Rightarrow> Some x)"
| "elem0 (JString s) = (case s of [] \<Rightarrow> None | c # _ \<Rightarrow> Some (JString [c]))"
| "elem0 (JObject kvs) = map_of (rev kvs) ''0''"
| "elem0 v = None"

text \<open>Optional chaining \<^verbatim>\<open>v?.f\<close>: \<^verbatim>\<open>undefined\<close> when \<open>v\<close> is \<^verbatim>\<open>null\<close> or \<^verbatim>\<open>undefined\<close>.\<close>

fun opt_chain :: "json option \<Rightarrow> (json \<Rightarrow> json option) \<Rightarrow> json option" where
  "opt_chain None f = None"
| "opt_chain (Some JNull) f = None"
| "opt_chain (Some v) f = f v"

text \<open>
  \<^verbatim>\<open>const candidate = result.candidates?.[0]\<close>; reading \<^verbatim>\<open>candidates\<close> of \<^verbatim>\<open>null\<close>
  throws.
\<close>

definition first_candidate :: "json \<Rightarrow> error + json option" where
  "first_candidate result =
     (if result = JNull then Inl Type_error
      else Inr (opt_chain (property ''candidates'' result) elem0))"

text \<open>
  The condition \<^verbatim>\<open>candidate && candidate.content?.parts?.[0]?.text\<close>: its value when
  \<open>candidate\<close> is truthy, and \<open>None\<close> (a falsy value) otherwise. The branch then reads the
  same path again into \<open>jsonText\<close>.
\<close>

definition candidate_text :: "json option \<Rightarrow> json option" where
  "candidate_text candidate =
     (case candidate of
        None \<Rightarrow> None
      | Some c \<Rightarrow>
          if truthy candidate then
            opt_chain (opt_chain (opt_chain (property ''content'' c) (property ''parts'')) elem0) (property ''text'')
          else None)"

section \<open>The route handlers\<close>

text \<open>
  The outer \<^verbatim>\<open>try\<close> block of the handler with the retry helper, after the check of the
  key: \<open>Inl\<close> is an error thrown to the outer \<^verbatim>\<open>catch\<close>, \<open>Inr\<close> a reply already sent.
  The source calls \<^verbatim>\<open>fetchWithBackoff(fetchFn)\<close> with the default policy; the policy is a
  parameter here, and \<open>get_price\<close> below fixes it to the defaults 5 and 1000.
\<close>

definition get_price_try ::
  "arith \<Rightarrow> int \<Rightarrow> real \<Rightarrow> (string \<Rightarrow> json option) \<Rightarrow> (nat \<Rightarrow> outcome) \<Rightarrow> (nat \<Rightarrow> real) \<Rightarrow> string
     \<Rightarrow> event list \<Rightarrow> (error + reply) \<times> event list" where
  "get_price_try ops maxRetries baseDelay parse fetchFn random name tr =
     (case fetchWithBackoff ops fetchFn random maxRetries baseDelay (tr @ [Log_fetching name]) of
        (Inl error, tr1) \<Rightarrow> (Inl error, tr1)
      | (Inr response, tr1) \<Rightarrow>
          (case json_body response of
             None \<Rightarrow> (Inl Syntax_error, tr1)
           | Some result \<Rightarrow>
               (case first_candidate result of
                  Inl error \<Rightarrow> (Inl error, tr1)
                | Inr candidate \<Rightarrow>
                    (case candidate_text candidate of
                       None \<Rightarrow>
                         (Inr (500, Error_body ''AI service returned an invalid response.'' None),
                          tr1 @ [Error_invalid_structure result])
                     | Some jsonText \<Rightarrow>
                         if truthy (Some jsonText) then
                           (case parse_and_respond parse jsonText (tr1 @ [Log_raw_text jsonText]) of
                              (reply, tr2) \<Rightarrow> (Inr reply, tr2))
                         else
                           (Inr (500, Error_body ''AI service returned an invalid response.'' None),
                            tr1 @ [Error_invalid_structure result])))))"

text \<open>
  \<^verbatim>\<open>!process.env.GEMINI_API_KEY\<close>: the variable is unset or the empty string.
\<close>

definition key_missing :: "string option \<Rightarrow> bool" where
  "key_missing GEMINI_API_KEY \<longleftrightarrow> GEMINI_API_KEY = None \<or> GEMINI_API_KEY = Some []"

definition get_price_with ::
  "arith \<Rightarrow> int \<Rightarrow> real \<Rightarrow> (string \<Rightarrow> json option) \<Rightarrow> string option \<Rightarrow> (nat \<Rightarrow> outcome) \<Rightarrow> (nat \<Rightarrow> real)
     \<Rightarrow> string \<Rightarrow> event list \<Rightarrow> reply \<times> event list" where
  "get_price_with ops maxRetries baseDelay parse GEMINI_API_KEY fetchFn random name tr =
     (if key_missing GEMINI_API_KEY then
        ((500, Error_body ''Server configuration error: AI Key is missing.'' None),
         tr @ [Error_key_missing])
      else
        (case get_price_try ops maxRetries baseDelay parse fetchFn random name tr of
           (Inr reply, tr') \<Rightarrow> (reply, tr')
         | (Inl error, tr') \<Rightarrow>
             ((500, Error_body ''Failed to get response from AI service.'' (Some error)),
              tr' @ [Error_gemini error])))"

definition get_price ::
  "arith \<Rightarrow> (string \<Rightarrow> json option) \<Rightarrow> string option \<Rightarrow> (nat \<Rightarrow> outcome) \<Rightarrow> (nat \<Rightarrow> real)
     \<Rightarrow> string \<Rightarrow> event list \<Rightarrow> reply \<times> event list" where
  "get_price ops = get_price_with ops 5 1000"

text \<open>
  The handler of \<^verbatim>\<open>index.js\<close>, which calls the SDK once and has no retry.
  \<open>generateContent\<close> is how that call settles: with a response whose \<^verbatim>\<open>text\<close> may be
  \<^verbatim>\<open>undefined\<close>, or with a rejection.
\<close>

datatype generated = Generated "string option" | Generation_rejected string

definition get_price_index ::
  "string option \<Rightarrow> generated \<Rightarrow> string \<Rightarrow> event list \<Rightarrow> reply \<times> event list" where
  "get_price_index GEMINI_API_KEY generateContent name tr =
     (if key_missing GEMINI_API_KEY then
        ((500, Error_body ''Server configuration error: AI Key missing.'' None),
         tr @ [Error_key_missing])
      else
        (case generateContent of
           Generated text \<Rightarrow>
             ((200, Explanation_body text), tr @ [Generate name, Log_ai_response text])
         | Generation_rejected msg \<Rightarrow>
             ((500, Error_body ''Failed to get response from AI service.'' (Some (Generate_failed msg))),
              tr @ [Generate name, Error_gemini (Generate_failed msg)])))"

section \<open>A reference parser for JSON\<close>

text \<open>
  \<^verbatim>\<open>JSON.parse\<close> belongs to the platform, not to this repository. Where a statement
  needs its value on a given text, this parser of the JSON grammar (ECMA-404) stands for
  it: white space, the three literals, numbers, strings with their escapes, arrays and
  objects. Numbers are read exactly, as rationals; a \<^verbatim>\<open>\u\<close> escape gives the UTF-8
  bytes of its code unit, since a \<open>char\<close> is a byte.
\<close>

definition is_ws :: "char \<Rightarrow> bool" where
  "is_ws c \<longleftrightarrow> c = CHR '' '' \<or> c = CHR 0x09 \<or> c = CHR 0x0A \<or> c = CHR 0x0D"

definition skip_ws :: "string \<Rightarrow> string" where
  "skip_ws s = dropWhile is_ws s"

definition is_digit :: "char \<Rightarrow> bool" where
  "is_digit c \<longleftrightarrow> 48 \<le> (of_char c :: nat) \<and> (of_char c :: nat) \<le> 57"

definition digit_val :: "char \<Rightarrow> nat" where
  "digit_val c = of_char c - 48"

definition nat_of_digits :: "string \<Rightarrow> nat" where
  "nat_of_digits ds = foldl (\<lambda>n c. 10 * n + digit_val c) 0 ds"

definition hex_val :: "char \<Rightarrow> nat option" where
  "hex_val c =
     (let n = (of_char c :: nat) in
      if 48 \<le> n \<and> n \<le> 57 then Some (n - 48)
      else if 65 \<le> n \<and> n \<le> 70 then Some (n - 55)
      else if 97 \<le> n \<and> n \<le> 102 then Some (n - 87)
      else None)"

definition hex4 :: "char \<Rightarrow> char \<Rightarrow> char \<Rightarrow> char \<Rightarrow> nat option" where
  "hex4 a b c d =
     (case (hex_val a, hex_val b, hex_val c, hex_val d) of
        (Some x, Some y, Some z, Some w) \<Rightarrow> Some (((x * 16 + y) * 16 + z) * 16 + w)
      | _ \<Rightarrow> None)"

definition utf8 :: "nat \<Rightarrow> string" where
  "utf8 n =
     (if n < 128 then [char_of n]
      else if n < 2048 then [char_of (192 + n div 64), char_of (128 + n mod 64)]
      else [char_of (224 + n div 4096), char_of (128 + (n div 64) mod 64), char_of (128 + n mod 64)])"

definition unescape :: "char \<Rightarrow> char option" where
  "unescape e =
     (if e = CHR 0x22 \<or> e = CHR 0x5C \<or> e = CHR ''/'' then Some e
      else if e = CHR ''b'' then Some (CHR 0x08)
      else if e = CHR ''f'' then Some (CHR 0x0C)
      else if e = CHR ''n'' then Some (CHR 0x0A)
      else if e = CHR ''r'' then Some (CHR 0x0D)
      else if e = CHR ''t'' then Some (CHR 0x09)
      else None)"

text \<open>The characters of a string after its opening quote, up to the closing quote.\<close>

fun parse_string :: "string \<Rightarrow> (string \<times> string) option" where
  "parse_string [] = None"
| "parse_string (c # cs) =
     (if c = CHR 0x22 then Some ([], cs)
      else if c = CHR 0x5C then
        (case cs of
           [] \<Rightarrow> None
         | e # r \<Rightarrow>
             if e = CHR ''u'' then
               (case r of
                  h1 # h2 # h3 # h4 # r' \<Rightarrow>
                    (case hex4 h1 h2 h3 h4 of
                       None \<Rightarrow> None
                     | Some n \<Rightarrow> map_option (\<lambda>(s, rest). (utf8 n @ s, rest)) (parse_string r'))
                | _ \<Rightarrow> None)
             else
               (case unescape e of
                  None \<Rightarrow> None
                | Some ch \<Rightarrow> map_option (\<lambda>(s, rest). (ch # s, rest)) (parse_string r)))
      else if (of_char c :: nat) < 32 then None
      else map_option (\<lambda>(s, rest). (c # s, rest)) (parse_string cs))"

text \<open>
  A number: an optional minus sign, an integer part without a leading zero, an optional
  fraction and an optional exponent.
\<close>

definition parse_exponent :: "string \<Rightarrow> (int \<times> string) option" where
  "parse_exponent s =
     (case s of
        [] \<Rightarrow> Some (0, s)
      | e # r \<Rightarrow>
          if e = CHR ''e'' \<or> e = CHR ''E'' then
            (let (neg, r1) = (case r of
                                [] \<Rightarrow> (False, r)
                              | sg # r' \<Rightarrow> if sg = CHR ''-'' then (True, r')
                                          else if sg = CHR ''+'' then (False, r')
                                          else (False, r));
                 ds = takeWhile is_digit r1
             in if ds = [] then None
                else Some (if neg then - int (nat_of_digits ds) else int (nat_of_digits ds),
                           dropWhile is_digit r1))
          else Some (0, s))"

definition parse_fraction :: "string \<Rightarrow> (string \<times> string) option" where
  "parse_fraction s =
     (case s of
        [] \<Rightarrow> Some ([], s)
      | p # r \<Rightarrow>
          if p = CHR ''.'' then
            (let ds = takeWhile is_digit r
             in if ds = [] then None else Some (ds, dropWhile is_digit r))
          else Some ([], s))"

definition parse_number :: "string \<Rightarrow> (rat \<times> string) option" where
  "parse_number s =
     (let (neg, s1) = (case s of
                         [] \<Rightarrow> (False, s)
                       | m # r \<Rightarrow> if m = CHR ''-'' then (True, r) else (False, s));
          ip = takeWhile is_digit s1
      in if ip = [] \<or> (1 < length ip \<and> hd ip = CHR ''0'') then None
         else
           (case parse_fraction (dropWhile is_digit s1) of
              None \<Rightarrow> None
            | Some (fp, s2) \<Rightarrow>
                (case parse_exponent s2 of
                   None \<Rightarrow> None
                 | Some (ex, s3) \<Rightarrow>
                     (let m = of_nat (nat_of_digits (ip @ fp)) / 10 ^ length fp;
                          v = (if 0 \<le> ex then m * 10 ^ nat ex else m / 10 ^ nat (- ex))
                      in Some (if neg then - v else v, s3)))))"

definition strip_prefix :: "string \<Rightarrow> string \<Rightarrow> string option" where
  "strip_prefix p s = (if take (length p) s = p then Some (drop (length p) s) else None)"

text \<open>
  A value, the elements of an array after the first bracket, and the members of an object
  after the first brace. The first argument bounds the depth of the recursion. A value
  reads a character before it descends into its elements or members, and these read a
  whole value and a comma before they go on, so the depth stays below twice the length
  of the text plus two, the bound that \<open>JSON_parse\<close> gives.
\<close>

fun parse_value :: "nat \<Rightarrow> string \<Rightarrow> (json \<times> string) option"
  and parse_elements :: "nat \<Rightarrow> json list \<Rightarrow> string \<Rightarrow> (json \<times> string) option"
  and parse_members :: "nat \<Rightarrow> (string \<times> json) list \<Rightarrow> string \<Rightarrow> (json \<times> string) option" where
  "parse_value 0 s = None"
| "parse_value (Suc n) s =
     (case skip_ws s of
        [] \<Rightarrow> None
      | c # cs \<Rightarrow>
          if c = CHR ''{'' then
            (case skip_ws cs of
               [] \<Rightarrow> None
             | d # r \<Rightarrow> if d = CHR ''}'' then Some (JObject [], r) else parse_members n [] cs)
          else if c = CHR ''['' then
            (case skip_ws cs of
               [] \<Rightarrow> None
             | d # r \<Rightarrow> if d = CHR '']'' then Some (JArray [], r) else parse_elements n [] cs)
          else if c = CHR 0x22 then
            map_option (\<lambda>(str, r). (JString str, r)) (parse_string cs)
          else if c = CHR ''t'' then map_option (Pair (JBool True)) (strip_prefix ''rue'' cs)
          else if c = CHR ''f'' then map_option (Pair (JBool False)) (strip_prefix ''alse'' cs)
          else if c = CHR ''n'' then map_option (Pair JNull) (strip_prefix ''ull'' cs)
          else map_option (\<lambda>(q, r). (JNumber q, r)) (parse_number (c # cs)))"
| "parse_elements 0 acc s = None"
| "parse_elements (Suc n) acc s =
     (case parse_value n s of
        None \<Rightarrow> None
      | Some (v, r) \<Rightarrow>
          (case skip_ws r of
             [] \<Rightarrow> None
           | d # r' \<Rightarrow>
               if d = CHR '','' then parse_elements n (acc @ [v]) r'
               else if d = CHR '']'' then Some (JArray (acc @ [v]), r')
               else None))"
| "parse_members 0 acc s = None"
| "parse_members (Suc n) acc s =
     (case skip_ws s of
        [] \<Rightarrow> None
      | q # r \<Rightarrow>
          if q = CHR 0x22 then
            (case parse_string r of
               None \<Rightarrow> None
             | Some (k, r1) \<Rightarrow>
                 (case skip_ws r1 of
                    [] \<Rightarrow> None
                  | c # r2 \<Rightarrow>
                      if c = CHR '':'' then
                        (case parse_value n r2 of
                           None \<Rightarrow> None
                         | Some (v, r3) \<Rightarrow>
                             (case skip_ws r3 of
                                [] \<Rightarrow> None
                              | d # r4 \<Rightarrow>
                                  if d = CHR '','' then parse_members n (acc @ [(k, v)]) r4
                                  else if d = CHR ''}'' then Some (JObject (acc @ [(k, v)]), r4)
                                  else None))
                      else None))
          else None)"

text \<open>The whole text has to be one value, with nothing but white space around it.\<close>

definition JSON_parse :: "string \<Rightarrow> json option" where
  "JSON_parse s =
     (case parse_value (2 * length s + 2) s of
        None \<Rightarrow> None
      | Some (v, r) \<Rightarrow> if skip_ws r = [] then Some v else None)"

section \<open>The text of the round-trip example\<close>

text \<open>
  The JSON object of the example and the raw text around it: a line of prose, a fence
  of three backquotes with the word \<^verbatim>\<open>json\<close>, a line feed, the object, a line feed and
  the closing fence. \<open>CHR 0x22\<close> is the double quote, \<open>CHR 0x60\<close> the backquote and
  \<open>CHR 0x0A\<close> the line feed.
\<close>

definition wheat_json :: string where
  "wheat_json =
     ''{'' @ [CHR 0x22] @ ''commodity'' @ [CHR 0x22] @ '':'' @ [CHR 0x22] @ ''wheat'' @ [CHR 0x22]
     @ '','' @ [CHR 0x22] @ ''price'' @ [CHR 0x22] @ '':25.5''
     @ '','' @ [CHR 0x22] @ ''currency'' @ [CHR 0x22] @ '':'' @ [CHR 0x22] @ ''INR'' @ [CHR 0x22]
     @ '','' @ [CHR 0x22] @ ''unit'' @ [CHR 0x22] @ '':'' @ [CHR 0x22] @ ''per kilogram'' @ [CHR 0x22]
     @ ''}''"

definition wheat_raw :: string where
  "wheat_raw =
     ''Here is the data: '' @ [CHR 0x60, CHR 0x60, CHR 0x60] @ ''json'' @ [CHR 0x0A]
     @ wheat_json @ [CHR 0x0A] @ [CHR 0x60, CHR 0x60, CHR 0x60]"

section \<open>Properties of fetchWithBackoff\<close>

text \<open>
  The loop is unfolded one iteration at a time, by substitution, and reasoned about by
  the induction rule of its definition.
\<close>

declare fetchWithBackoff_loop.simps [simp del]

lemma sleeps_append: "sleeps (xs @ ys) = sleeps xs @ sleeps ys"
  by (induction xs rule: sleeps.induct) simp_all


lemma n_sleep_append: "n_sleep (xs @ ys) = n_sleep xs + n_sleep ys"
  by (simp add: n_sleep_def sleeps_append)




lemma try_catch_Some:
  "try_catch out attempt tr = (Some r, tr') \<longleftrightarrow> out = Resolves r \<and> ok r \<and> tr' = tr"
  by (cases out) (auto simp: try_catch_def)

lemma try_catch_count:
  "count_list (snd (try_catch out attempt tr)) Warn_rate_limited = count_list tr Warn_rate_limited"
  by (cases out) (auto simp: try_catch_def)

lemma loop_returns_ok:
  "fetchWithBackoff_loop ops fetchFn random maxRetries baseDelay attempt tr = (Inr r, tr') \<Longrightarrow> ok r"
proof (induction ops fetchFn random maxRetries baseDelay attempt tr rule: fetchWithBackoff_loop.induct)
  case (1 ops fetchFn random maxRetries baseDelay attempt tr)
  show ?case
  proof (cases "int attempt < maxRetries")
    case False
    with "1.prems" show ?thesis by (subst (asm) fetchWithBackoff_loop.simps) simp
  next
    case True
    obtain res tr1 where tc: "try_catch (fetchFn (n_fetch tr)) attempt (tr @ [Fetch]) = (res, tr1)"
      by (cases "try_catch (fetchFn (n_fetch tr)) attempt (tr @ [Fetch])")
    show ?thesis
    proof (cases res)
      case (Some r0)
      with tc True "1.prems" have "r0 = r"
        by (subst (asm) fetchWithBackoff_loop.simps) simp
      with tc Some show ?thesis by (simp add: try_catch_Some)
    next
      case None
      show ?thesis
      proof (cases "int attempt = maxRetries - 1")
        case last: True
        with tc None True "1.prems" show ?thesis
          by (subst (asm) fetchWithBackoff_loop.simps) simp
      next
        case more: False
        from "1.prems" tc None True more have
          "fetchWithBackoff_loop ops fetchFn random maxRetries baseDelay (attempt + 1)
             (tr1 @ [Sleep (delay ops baseDelay attempt (random (n_sleep tr1)))]) = (Inr r, tr')"
          by (subst (asm) fetchWithBackoff_loop.simps) simp
        with "1.IH"[OF True tc[symmetric] None more] None show ?thesis by simp
      qed
    qed
  qed
qed

lemma loop_count:
  "count_list (snd (fetchWithBackoff_loop ops fetchFn random maxRetries baseDelay attempt tr)) Warn_rate_limited
     = count_list tr Warn_rate_limited"
proof (induction ops fetchFn random maxRetries baseDelay attempt tr rule: fetchWithBackoff_loop.induct)
  case (1 ops fetchFn random maxRetries baseDelay attempt tr)
  show ?case
  proof (cases "int attempt < maxRetries")
    case False
    then show ?thesis by (subst fetchWithBackoff_loop.simps) simp
  next
    case True
    obtain res tr1 where tc: "try_catch (fetchFn (n_fetch tr)) attempt (tr @ [Fetch]) = (res, tr1)"
      by (cases "try_catch (fetchFn (n_fetch tr)) attempt (tr @ [Fetch])")
    have c1: "count_list tr1 Warn_rate_limited = count_list tr Warn_rate_limited"
      using try_catch_count[of "fetchFn (n_fetch tr)" attempt "tr @ [Fetch]"] tc by simp
    show ?thesis
    proof (cases res)
      case (Some r0)
      with tc True c1 show ?thesis by (subst fetchWithBackoff_loop.simps) simp
    next
      case None
      show ?thesis
      proof (cases "int attempt = maxRetries - 1")
        case last: True
        with tc None True c1 show ?thesis by (subst fetchWithBackoff_loop.simps) simp
      next
        case more: False
        from "1.IH"[OF True tc[symmetric] None more] c1 tc None True more
        show ?thesis by (subst fetchWithBackoff_loop.simps) simp
      qed
    qed
  qed
qed






text \<open>
  C1. The claim: a response with a status from 400 to 499 makes \<open>fetchWithBackoff\<close> fail
  with the client error at once, with no further request and no sleep. The run below
  shows what the code does with an upstream that always answers 404: the client error is
  thrown inside the \<^verbatim>\<open>try\<close> block and taken by its own \<^verbatim>\<open>catch\<close> clause, so the loop
  goes on; five requests and four sleeps later the call fails with the error of the
  exhausted retries. This holds with every arithmetic; with \<^verbatim>\<open>Math.random()\<close> returning
  0 the four delays are the integers 1000, 2000, 4000 and 8000, on which doubles are
  exact.
\<close>

theorem fetchWithBackoff_retries_client_error:
  "fetchWithBackoff ops (\<lambda>k. Resolves \<lparr>status = 404, statusText = ''Not Found'', json_body = None\<rparr>)
     (\<lambda>k. 0) 5 1000 []
   = (Inl Max_retries,
      [Fetch, Warn_attempt_failed 1 (Client_error 404 ''Not Found''), Sleep (delay ops 1000 0 0),
       Fetch, Warn_attempt_failed 2 (Client_error 404 ''Not Found''), Sleep (delay ops 1000 1 0),
       Fetch, Warn_attempt_failed 3 (Client_error 404 ''Not Found''), Sleep (delay ops 1000 2 0),
       Fetch, Warn_attempt_failed 4 (Client_error 404 ''Not Found''), Sleep (delay ops 1000 3 0),
       Fetch, Warn_attempt_failed 5 (Client_error 404 ''Not Found'')])
   \<and> fetchWithBackoff exact (\<lambda>k. Resolves \<lparr>status = 404, statusText = ''Not Found'', json_body = None\<rparr>)
     (\<lambda>k. 0) 5 1000 []
   = (Inl Max_retries,
      [Fetch, Warn_attempt_failed 1 (Client_error 404 ''Not Found''), Sleep 1000,
       Fetch, Warn_attempt_failed 2 (Client_error 404 ''Not Found''), Sleep 2000,
       Fetch, Warn_attempt_failed 3 (Client_error 404 ''Not Found''), Sleep 4000,
       Fetch, Warn_attempt_failed 4 (Client_error 404 ''Not Found''), Sleep 8000,
       Fetch, Warn_attempt_failed 5 (Client_error 404 ''Not Found'')])"
  by (simp add: fetchWithBackoff_def fetchWithBackoff_loop.simps try_catch_def ok_def n_sleep_def
        delay_def exact_def eval_nat_numeral)



text \<open>
  C3. A response with a status from 200 to 299, seen at any iteration of the loop, is
  returned at once: the trace grows by the one request and by nothing else. Conversely
  every response that the loop returns has a status from 200 to 299. The same holds of
  \<open>fetchWithBackoff\<close> itself, which enters the loop at attempt 0.
\<close>

theorem fetchWithBackoff_success:
  "(int attempt < maxRetries \<and> fetchFn (n_fetch tr) = Resolves r \<and> 200 \<le> status r \<and> status r \<le> 299
      \<longrightarrow> fetchWithBackoff_loop ops fetchFn random maxRetries baseDelay attempt tr = (Inr r, tr @ [Fetch]))
   \<and> (fetchWithBackoff_loop ops fetchFn random maxRetries baseDelay attempt tr = (Inr r', tr')
      \<longrightarrow> 200 \<le> status r' \<and> status r' \<le> 299)
   \<and> (0 < maxRetries \<and> fetchFn (n_fetch tr) = Resolves r \<and> 200 \<le> status r \<and> status r \<le> 299
      \<longrightarrow> fetchWithBackoff ops fetchFn random maxRetries baseDelay tr = (Inr r, tr @ [Fetch]))
   \<and> (fetchWithBackoff ops fetchFn random maxRetries baseDelay tr = (Inr r'', tr'')
      \<longrightarrow> 200 \<le> status r'' \<and> status r'' \<le> 299)"
proof (intro conjI impI)
  assume "int attempt < maxRetries \<and> fetchFn (n_fetch tr) = Resolves r \<and> 200 \<le> status r \<and> status r \<le> 299"
  then show "fetchWithBackoff_loop ops fetchFn random maxRetries baseDelay attempt tr = (Inr r, tr @ [Fetch])"
    by (subst fetchWithBackoff_loop.simps) (simp add: try_catch_def ok_def)
next
  assume "fetchWithBackoff_loop ops fetchFn random maxRetries baseDelay attempt tr = (Inr r', tr')"
  then have "ok r'" by (rule loop_returns_ok)
  then show "200 \<le> status r'" and "status r' \<le> 299" by (simp_all add: ok_def)
next
  assume "0 < maxRetries \<and> fetchFn (n_fetch tr) = Resolves r \<and> 200 \<le> status r \<and> status r \<le> 299"
  then show "fetchWithBackoff ops fetchFn random maxRetries baseDelay tr = (Inr r, tr @ [Fetch])"
    unfolding fetchWithBackoff_def
    by (subst fetchWithBackoff_loop.simps) (simp add: try_catch_def ok_def)
next
  assume "fetchWithBackoff ops fetchFn random maxRetries baseDelay tr = (Inr r'', tr'')"
  then have "ok r''" unfolding fetchWithBackoff_def by (rule loop_returns_ok)
  then show "200 \<le> status r''" and "status r'' \<le> 299" by (simp_all add: ok_def)
qed

theorem fetchWithBackoff_success_witness:
  "(int 0 < 5 \<and> (\<lambda>k. Resolves \<lparr>status = 200, statusText = ''OK'', json_body = None\<rparr>) (n_fetch [])
        = Resolves \<lparr>status = 200, statusText = ''OK'', json_body = None\<rparr>
      \<and> (200::int) \<le> status \<lparr>status = 200, statusText = ''OK'', json_body = None\<rparr>
      \<and> status \<lparr>status = 200, statusText = ''OK'', json_body = None\<rparr> \<le> (299::int))
   \<and> fetchWithBackoff_loop exact (\<lambda>k. Resolves \<lparr>status = 200, statusText = ''OK'', json_body = None\<rparr>) (\<lambda>k. 0) 5 1000 0 []
       = (Inr \<lparr>status = 200, statusText = ''OK'', json_body = None\<rparr>, [] @ [Fetch])
   \<and> fetchWithBackoff exact (\<lambda>k. Resolves \<lparr>status = 200, statusText = ''OK'', json_body = None\<rparr>) (\<lambda>k. 0) 5 1000 []
       = (Inr \<lparr>status = 200, statusText = ''OK'', json_body = None\<rparr>, [] @ [Fetch])"
  using fetchWithBackoff_success[of 0 5 "\<lambda>k. Resolves \<lparr>status = 200, statusText = ''OK'', json_body = None\<rparr>" "[]"
      "\<lparr>status = 200, statusText = ''OK'', json_body = None\<rparr>" exact "\<lambda>k. 0" 1000
      "\<lparr>status = 200, statusText = ''OK'', json_body = None\<rparr>" "[Fetch]"
      "\<lparr>status = 200, statusText = ''OK'', json_body = None\<rparr>" "[Fetch]"]
  by simp

text \<open>
  C9. A response with status 429 leaves the \<^verbatim>\<open>try\<close> block through the client error,
  because the test for the range from 400 to 499 comes first. The warning of the
  rate-limit branch is therefore never written: neither the block, whatever the outcome,
  nor a whole run of the loop adds one to the trace.
\<close>

theorem rate_limit_branch_unreachable:
  "try_block (Resolves \<lparr>status = 429, statusText = t, json_body = b\<rparr>) tr = (Throw (Client_error 429 t), tr)
   \<and> count_list (snd (try_block out tr)) Warn_rate_limited = count_list tr Warn_rate_limited
   \<and> count_list (snd (fetchWithBackoff_loop ops fetchFn random maxRetries baseDelay attempt tr)) Warn_rate_limited
        = count_list tr Warn_rate_limited"
proof (intro conjI)
  show "try_block (Resolves \<lparr>status = 429, statusText = t, json_body = b\<rparr>) tr = (Throw (Client_error 429 t), tr)"
    by (simp add: ok_def)
  show "count_list (snd (try_block out tr)) Warn_rate_limited = count_list tr Warn_rate_limited"
    by (cases out) auto
  show "count_list (snd (fetchWithBackoff_loop ops fetchFn random maxRetries baseDelay attempt tr)) Warn_rate_limited
        = count_list tr Warn_rate_limited"
    by (rule loop_count)
qed

text \<open>
  C10. With \<open>maxRetries\<close> zero or negative the loop body never runs: the call fails with
  the error of the exhausted retries and the trace is unchanged, so there was neither a
  request nor a sleep.
\<close>

theorem fetchWithBackoff_no_attempts:
  "maxRetries \<le> 0 \<Longrightarrow> fetchWithBackoff ops fetchFn random maxRetries baseDelay tr = (Inl Max_retries, tr)"
  by (simp add: fetchWithBackoff_def fetchWithBackoff_loop.simps)

theorem fetchWithBackoff_no_attempts_witness:
  "(- 2 :: int) \<le> 0 \<and> fetchWithBackoff exact (\<lambda>k. Rejects ''offline'') (\<lambda>k. 0) (- 2) 1000 [] = (Inl Max_retries, [])"
  using fetchWithBackoff_no_attempts[of "- 2" exact "\<lambda>k. Rejects ''offline''" "\<lambda>k. 0" 1000 "[]"] by simp

section \<open>Properties of the response extractor\<close>

text \<open>
  The index functions find what they should: \<open>-1\<close> exactly when the element is absent,
  otherwise the length of the part before the first, and before the last, occurrence.
\<close>

lemma indexOf_absent: "indexOf xs x = - 1 \<longleftrightarrow> x \<notin> set xs"
  by (simp add: indexOf_def)

lemma takeWhile_until: "x \<notin> set pre \<Longrightarrow> takeWhile (\<lambda>y. y \<noteq> x) (pre @ x # rest) = pre"
  by (induction pre) auto

lemma indexOf_first: "x \<notin> set pre \<Longrightarrow> indexOf (pre @ x # rest) x = int (length pre)"
  by (simp add: indexOf_def takeWhile_until)

lemma lastIndexOf_last: "x \<notin> set post \<Longrightarrow> lastIndexOf (xs @ x # post) x = int (length xs)"
  using takeWhile_until[of x "rev post" "rev xs"] by (simp add: lastIndexOf_def)

lemma lastIndexOf_absent: "lastIndexOf xs x = - 1 \<longleftrightarrow> x \<notin> set xs"
proof (cases "x \<in> set xs")
  case True
  then obtain pre post where "xs = pre @ x # post" and "x \<notin> set post"
    using split_list_last[of x xs] by blast
  then have "lastIndexOf xs x = int (length pre)"
    using lastIndexOf_last by fastforce
  with True show ?thesis by simp
next
  case False
  then show ?thesis by (simp add: lastIndexOf_def)
qed

lemma substring_middle:
  "substring (pre @ mid @ post) (int (length pre)) (int (length pre) + int (length mid)) = mid"
  by (simp add: substring_def Let_def min_def max_def)

lemma extractor_slice:
  assumes t: "jsonText = pre @ [CHR ''{''] @ mid @ [CHR ''}''] @ post"
    and o: "CHR ''{'' \<notin> set pre" and c: "CHR ''}'' \<notin> set post"
  shows "response_extractor parse jsonText tr =
     (case parse ([CHR ''{''] @ mid @ [CHR ''}'']) of
        None \<Rightarrow> (Inl Syntax_error, tr @ [Json_parse ([CHR ''{''] @ mid @ [CHR ''}''])])
      | Some parsedJson \<Rightarrow> (Inr parsedJson, tr @ [Json_parse ([CHR ''{''] @ mid @ [CHR ''}''])]))"
proof -
  have s: "indexOf jsonText (CHR ''{'') = int (length pre)"
    unfolding t using indexOf_first[OF o] by simp
  have e: "lastIndexOf jsonText (CHR ''}'') = int (length pre) + int (length mid) + 1"
    unfolding t using lastIndexOf_last[OF c, of "pre @ [CHR ''{''] @ mid"] by simp
  have sub: "substring jsonText (indexOf jsonText (CHR ''{'')) (lastIndexOf jsonText (CHR ''}'') + 1)
      = [CHR ''{''] @ mid @ [CHR ''}'']"
    unfolding s e unfolding t
    using substring_middle[of pre "[CHR ''{''] @ mid @ [CHR ''}'']" post] by (simp add: ac_simps)
  have guard: "\<not> (indexOf jsonText (CHR ''{'') = - 1 \<or> lastIndexOf jsonText (CHR ''}'') = - 1
      \<or> lastIndexOf jsonText (CHR ''}'') < indexOf jsonText (CHR ''{''))"
    unfolding s e by simp
  show ?thesis
    unfolding response_extractor_def Let_def sub using guard by simp
qed

text \<open>
  Every text that passes the guard of the extractor splits in this way, so the theorems
  below, which are stated on the split, speak of every text that reaches the parser.
\<close>

lemma brace_slice_exists:
  assumes "indexOf s (CHR ''{'') \<noteq> - 1"
    and "lastIndexOf s (CHR ''}'') \<noteq> - 1"
    and "\<not> lastIndexOf s (CHR ''}'') < indexOf s (CHR ''{'')"
  shows "\<exists>pre mid post. s = pre @ [CHR ''{''] @ mid @ [CHR ''}''] @ post
           \<and> CHR ''{'' \<notin> set pre \<and> CHR ''}'' \<notin> set post"
proof -
  from assms(1) have "CHR ''{'' \<in> set s" by (simp add: indexOf_absent)
  then obtain pre rest where p: "s = pre @ CHR ''{'' # rest" "CHR ''{'' \<notin> set pre"
    using split_list_first[of "CHR ''{''" s] by blast
  from assms(2) have "CHR ''}'' \<in> set s" by (simp add: lastIndexOf_absent)
  then obtain xs post where q: "s = xs @ CHR ''}'' # post" "CHR ''}'' \<notin> set post"
    using split_list_last[of "CHR ''}''" s] by blast
  have i: "indexOf s (CHR ''{'') = int (length pre)"
    using p indexOf_first by fastforce
  have l: "lastIndexOf s (CHR ''}'') = int (length xs)"
    using q lastIndexOf_last by fastforce
  have le: "length pre \<le> length xs" using assms(3) i l by simp
  have "s ! length pre = CHR ''{''" using p by simp
  moreover have "s ! length xs = CHR ''}''" using q by simp
  ultimately have "length pre \<noteq> length xs" by auto
  with le have lt: "length pre < length xs" by simp
  have "take (length xs) s = xs" using q by simp
  then have "xs = pre @ CHR ''{'' # take (length xs - length pre - 1) rest"
    using p lt by (simp add: take_Cons')
  then have "s = pre @ [CHR ''{''] @ take (length xs - length pre - 1) rest @ [CHR ''}''] @ post"
    using q(1) by simp
  with p(2) q(2) show ?thesis by blast
qed

text \<open>The values of the reference parser on the texts used below.\<close>

lemma JSON_parse_empty_object: "JSON_parse ''{}'' = Some (JObject [])"
  by code_simp

lemma JSON_parse_invalid: "JSON_parse ''{invalid json}'' = None"
  by code_simp

lemma JSON_parse_wheat:
  "JSON_parse wheat_json = Some (JObject [(''commodity'', JString ''wheat''), (''price'', JNumber 25.5),
       (''currency'', JString ''INR''), (''unit'', JString ''per kilogram'')])"
  by code_simp

lemma wheat_raw_split:
  "wheat_raw = (''Here is the data: '' @ [CHR 0x60, CHR 0x60, CHR 0x60] @ ''json'' @ [CHR 0x0A])
      @ [CHR ''{''] @ butlast (tl wheat_json) @ [CHR ''}''] @ ([CHR 0x0A] @ [CHR 0x60, CHR 0x60, CHR 0x60])"
  by (simp add: wheat_raw_def wheat_json_def)

lemma wheat_json_split: "[CHR ''{''] @ butlast (tl wheat_json) @ [CHR ''}''] = wheat_json"
  by (simp add: wheat_json_def)

text \<open>
  C4. When the text has an opening brace, with none before it, and later a closing brace,
  with none after it, and the slice from the one to the other parses, the handler
  answers 200 with the parsed value \<open>parsedJson\<close> itself, whatever that value is: nothing
  between \<^verbatim>\<open>JSON.parse\<close> and the reply looks at a \<^verbatim>\<open>price\<close> or at any other member. The
  witness is a text whose slice is the empty object.
\<close>

theorem extractor_no_schema_validation:
  assumes "jsonText = pre @ [CHR ''{''] @ mid @ [CHR ''}''] @ post"
    and "CHR ''{'' \<notin> set pre" and "CHR ''}'' \<notin> set post"
    and "parse ([CHR ''{''] @ mid @ [CHR ''}'']) = Some parsedJson"
  shows "parse_and_respond parse (JString jsonText) tr
     = ((200, Json_body parsedJson), tr @ [Json_parse ([CHR ''{''] @ mid @ [CHR ''}''])])"
  using extractor_slice[OF assms(1-3), of parse tr] assms(4)
  by (simp add: parse_and_respond_def inner_try_def)

theorem extractor_no_schema_validation_witness:
  "''ok {} done'' = ''ok '' @ [CHR ''{''] @ [] @ [CHR ''}''] @ '' done''
   \<and> CHR ''{'' \<notin> set ''ok '' \<and> CHR ''}'' \<notin> set '' done''
   \<and> JSON_parse ([CHR ''{''] @ [] @ [CHR ''}'']) = Some (JObject [])
   \<and> parse_and_respond JSON_parse (JString ''ok {} done'') [] = ((200, Json_body (JObject [])), [Json_parse ''{}''])"
proof -
  have p: "JSON_parse ([CHR ''{''] @ [] @ [CHR ''}'']) = Some (JObject [])"
    using JSON_parse_empty_object by simp
  have t: "''ok {} done'' = ''ok '' @ [CHR ''{''] @ [] @ [CHR ''}''] @ '' done''" by simp
  have o: "CHR ''{'' \<notin> set ''ok ''" by simp
  have c: "CHR ''}'' \<notin> set '' done''" by simp
  have "parse_and_respond JSON_parse (JString ''ok {} done'') []
      = ((200, Json_body (JObject [])), [] @ [Json_parse ([CHR ''{''] @ [] @ [CHR ''}''])])"
    by (rule extractor_no_schema_validation[where pre = "''ok ''" and mid = "[]" and post = "'' done''"
          and parse = JSON_parse and parsedJson = "JObject []" and tr = "[]" and jsonText = "''ok {} done''",
          OF t o c p])
  then show ?thesis using p by simp
qed

text \<open>
  C5. A text with no opening brace, or with no closing brace, or whose last closing
  brace comes before its first opening brace: the block throws the error "Valid JSON
  object not found in AI response.", \<^verbatim>\<open>JSON.parse\<close> is not invoked (the trace of the
  extractor is unchanged), and the handler logs the error and the raw text and answers
  500.
\<close>

theorem extractor_no_json_object:
  assumes "CHR ''{'' \<notin> set raw \<or> CHR ''}'' \<notin> set raw
           \<or> lastIndexOf raw (CHR ''}'') < indexOf raw (CHR ''{'')"
  shows "response_extractor parse raw tr = (Inl Json_not_found, tr)
     \<and> parse_and_respond parse (JString raw) tr
        = ((500, Error_body ''Failed to parse AI response.'' None),
           tr @ [Error_parse_failed Json_not_found, Error_raw_text (JString raw)])"
proof -
  have "indexOf raw (CHR ''{'') = - 1 \<or> lastIndexOf raw (CHR ''}'') = - 1
        \<or> lastIndexOf raw (CHR ''}'') < indexOf raw (CHR ''{'')"
    using assms by (auto simp: indexOf_absent lastIndexOf_absent)
  then have "response_extractor parse raw tr = (Inl Json_not_found, tr)"
    by (auto simp: response_extractor_def Let_def)
  then show ?thesis by (simp add: parse_and_respond_def inner_try_def)
qed

theorem extractor_no_json_object_witness:
  "lastIndexOf ''} then {'' (CHR ''}'') < indexOf ''} then {'' (CHR ''{'')
   \<and> response_extractor JSON_parse ''} then {'' [] = (Inl Json_not_found, [])
   \<and> parse_and_respond JSON_parse (JString ''} then {'') []
        = ((500, Error_body ''Failed to parse AI response.'' None),
           [Error_parse_failed Json_not_found, Error_raw_text (JString ''} then {'')])"
proof -
  have l: "lastIndexOf ''} then {'' (CHR ''}'') < indexOf ''} then {'' (CHR ''{'')"
    by (simp add: indexOf_def lastIndexOf_def)
  then have h: "CHR ''{'' \<notin> set ''} then {'' \<or> CHR ''}'' \<notin> set ''} then {''
      \<or> lastIndexOf ''} then {'' (CHR ''}'') < indexOf ''} then {'' (CHR ''{'')"
    by blast
  have "response_extractor JSON_parse ''} then {'' [] = (Inl Json_not_found, [])
     \<and> parse_and_respond JSON_parse (JString ''} then {'') []
        = ((500, Error_body ''Failed to parse AI response.'' None),
           [] @ [Error_parse_failed Json_not_found, Error_raw_text (JString ''} then {'')])"
    by (rule extractor_no_json_object[OF h])
  then show ?thesis using l by simp
qed

text \<open>
  C6, as stated, names the text \<^verbatim>\<open>{invalid json\<close> as one that fails with "malformed
  JSON". That text has no closing brace: the code throws the error of the missing object
  and never calls \<^verbatim>\<open>JSON.parse\<close>.
\<close>

theorem extractor_invalid_json_counterexample:
  "fst (response_extractor JSON_parse ''{invalid json'' []) = Inl Json_not_found
   \<and> fst (response_extractor JSON_parse ''{invalid json'' []) \<noteq> Inl Syntax_error
   \<and> Json_parse ''{invalid json'' \<notin> set (snd (response_extractor JSON_parse ''{invalid json'' []))"
  by (simp add: response_extractor_def indexOf_def lastIndexOf_def)

text \<open>
  C6, amended. When the text has an opening brace, with none before it, and later a
  closing brace, with none after it, and the slice from the one to the other does not
  parse, \<^verbatim>\<open>JSON.parse\<close> is invoked on the slice, the handler logs the syntax error and
  then the whole raw text, and answers 500 with "Failed to parse AI response.".
\<close>

theorem extractor_malformed_json:
  assumes "raw = pre @ [CHR ''{''] @ mid @ [CHR ''}''] @ post"
    and "CHR ''{'' \<notin> set pre" and "CHR ''}'' \<notin> set post"
    and "parse ([CHR ''{''] @ mid @ [CHR ''}'']) = None"
  shows "parse_and_respond parse (JString raw) tr
     = ((500, Error_body ''Failed to parse AI response.'' None),
        tr @ [Json_parse ([CHR ''{''] @ mid @ [CHR ''}'']), Error_parse_failed Syntax_error,
              Error_raw_text (JString raw)])"
  using extractor_slice[OF assms(1-3), of parse tr] assms(4)
  by (simp add: parse_and_respond_def inner_try_def)

theorem extractor_malformed_json_witness:
  "''see {invalid json} here'' = ''see '' @ [CHR ''{''] @ ''invalid json'' @ [CHR ''}''] @ '' here''
   \<and> CHR ''{'' \<notin> set ''see '' \<and> CHR ''}'' \<notin> set '' here''
   \<and> JSON_parse ([CHR ''{''] @ ''invalid json'' @ [CHR ''}'']) = None
   \<and> parse_and_respond JSON_parse (JString ''see {invalid json} here'') []
     = ((500, Error_body ''Failed to parse AI response.'' None),
        [Json_parse ''{invalid json}'', Error_parse_failed Syntax_error,
         Error_raw_text (JString ''see {invalid json} here'')])"
proof -
  have p: "JSON_parse ([CHR ''{''] @ ''invalid json'' @ [CHR ''}'']) = None"
    using JSON_parse_invalid by simp
  have t: "''see {invalid json} here'' = ''see '' @ [CHR ''{''] @ ''invalid json'' @ [CHR ''}''] @ '' here''" by simp
  have o: "CHR ''{'' \<notin> set ''see ''" by simp
  have c: "CHR ''}'' \<notin> set '' here''" by simp
  have "parse_and_respond JSON_parse (JString ''see {invalid json} here'') []
     = ((500, Error_body ''Failed to parse AI response.'' None),
        [] @ [Json_parse ([CHR ''{''] @ ''invalid json'' @ [CHR ''}'']), Error_parse_failed Syntax_error,
              Error_raw_text (JString ''see {invalid json} here'')])"
    by (rule extractor_malformed_json[where raw = "''see {invalid json} here''" and pre = "''see ''"
      and mid = "''invalid json''" and post = "'' here''" and parse = JSON_parse and tr = "[]", OF t o c p])
  then show ?thesis using p by simp
qed

text \<open>
  C7. On the raw text of the example (prose, a fenced block, the JSON object of the
  wheat price) the handler hands exactly the object's text to the parser and answers 200
  with the four members commodity, price, currency and unit.
\<close>

theorem extractor_round_trip:
  "parse_and_respond JSON_parse (JString wheat_raw) tr
     = ((200, Json_body (JObject [(''commodity'', JString ''wheat''), (''price'', JNumber 25.5),
                                  (''currency'', JString ''INR''), (''unit'', JString ''per kilogram'')])),
        tr @ [Json_parse wheat_json])"
proof -
  have o: "CHR ''{'' \<notin> set (''Here is the data: '' @ [CHR 0x60, CHR 0x60, CHR 0x60] @ ''json'' @ [CHR 0x0A])"
    by simp
  have c: "CHR ''}'' \<notin> set ([CHR 0x0A] @ [CHR 0x60, CHR 0x60, CHR 0x60])"
    by simp
  from extractor_slice[OF wheat_raw_split o c, of JSON_parse tr]
  show ?thesis
    unfolding wheat_json_split JSON_parse_wheat
    by (simp add: parse_and_respond_def inner_try_def)
qed

section \<open>The missing credential\<close>

text \<open>
  C8. When the key is unset or empty, both handlers answer 500 with their configuration
  message and add one event to the trace, the error log: no request, no sleep and no
  call of the SDK happens. For the handler with the retry helper this holds for every
  \<open>maxRetries\<close> and \<open>baseDelay\<close>.
\<close>

theorem missing_credential_short_circuits:
  assumes "GEMINI_API_KEY = None \<or> GEMINI_API_KEY = Some ''''"
  shows "get_price_with ops maxRetries baseDelay parse GEMINI_API_KEY fetchFn random name tr
       = ((500, Error_body ''Server configuration error: AI Key is missing.'' None), tr @ [Error_key_missing])
     \<and> get_price ops parse GEMINI_API_KEY fetchFn random name tr
       = ((500, Error_body ''Server configuration error: AI Key is missing.'' None), tr @ [Error_key_missing])
     \<and> get_price_index GEMINI_API_KEY generateContent name tr
       = ((500, Error_body ''Server configuration error: AI Key missing.'' None), tr @ [Error_key_missing])
     \<and> n_fetch (tr @ [Error_key_missing]) = n_fetch tr
     \<and> sleeps (tr @ [Error_key_missing]) = sleeps tr
     \<and> Generate name \<notin> set [Error_key_missing]"
  using assms
  by (auto simp: get_price_with_def get_price_def get_price_index_def key_missing_def n_fetch_def sleeps_append)

theorem missing_credential_short_circuits_witness:
  "((None :: string option) = None \<or> (None :: string option) = Some '''')
   \<and> get_price exact JSON_parse None (\<lambda>k. Rejects ''offline'') (\<lambda>k. 0) ''wheat'' []
       = ((500, Error_body ''Server configuration error: AI Key is missing.'' None), [Error_key_missing])
   \<and> get_price_index None (Generation_rejected ''offline'') ''wheat'' []
       = ((500, Error_body ''Server configuration error: AI Key missing.'' None), [Error_key_missing])"
  using missing_credential_short_circuits[of None exact 5 1000 JSON_parse "\<lambda>k. Rejects ''offline''" "\<lambda>k. 0" "''wheat''" "[]"
      "Generation_rejected ''offline''"]
  by simp

end
